theory Spec2Isabelle
  imports Complex_Main "HOL-Library.Word"
begin

section \<open>Accreditation checker of Transcript.py\<close>

text \<open>
  The development embeds the accreditation checker of \<^verbatim>\<open>src/Transcript.py\<close>
  (lines 22 and 96--157, and the status line 193 of \<^verbatim>\<open>main\<close>): the six registry
  adapters, the \<^verbatim>\<open>if/elif\<close> chain that selects one of them, the \<^verbatim>\<open>try/except\<close>
  around it, the random sleep, and the \<^verbatim>\<open>lru_cache(maxsize=1000)\<close> decorator.

  Python strings are modelled as \<^typ>\<open>string\<close>; case conversion acts on the ASCII
  letters, Python's folding of characters beyond ASCII is outside the model. What the
  code obtains from the outside (HTTP responses, the parsed HTML, one draw of the random
  generator) is a field of the record \<open>env\<close>, passed to every call. Everything the code
  does to the outside (sleeping, sending a request, \<^verbatim>\<open>st.error\<close>) is an event in the
  list returned by the call, in program order.

  A request either returns a response or raises; one that never returns (the code sets
  no timeout) is outside the model, and so are the exceptions that are not an
  \<^verbatim>\<open>Exception\<close>, which the handler does not catch. The arguments are strings, as
  the signature says.
\<close>

subsection \<open>Exceptions, requests, events\<close>

text \<open>
  The exceptions that can be raised inside the \<^verbatim>\<open>try\<close> block of
  \<^verbatim>\<open>check_accreditation\<close>: a failing \<^verbatim>\<open>requests\<close> call (connection failure or
  timeout), subscripting \<^verbatim>\<open>None\<close> (\<^verbatim>\<open>TypeError\<close>), a tag without the attribute
  (\<^verbatim>\<open>KeyError\<close>), an invalid pattern (\<^verbatim>\<open>re.error\<close>, with its position).
\<close>

datatype exn =
    ConnectionError string
  | Timeout string
  | TypeError string
  | KeyError string
  | ReError string nat

datatype request =
    Get string
  | Post string "(string \<times> string) list"

record response =
  status_code :: nat
  resp_text :: string

datatype event =
    Sleep real
  | Request request
  | StError string

record env =
  http :: "request \<Rightarrow> exn + response"
  soup_find_input :: "string \<Rightarrow> string \<Rightarrow> (string \<times> string) list option"
  soup_select :: "string \<Rightarrow> string \<Rightarrow> string list"
  re_other :: "string \<Rightarrow> exn + (string \<Rightarrow> bool)"
  rand53 :: "53 word"

text \<open>
  \<open>http\<close> is the state of the registries as one call sees it: the outcome of each
  request. \<open>soup_find_input html i\<close> stands for
  \<^verbatim>\<open>BeautifulSoup(html, 'html.parser').find('input', {'id': i})\<close>: the attributes of
  the tag found, or \<open>None\<close>. \<open>soup_select html sel\<close> stands for the \<^verbatim>\<open>.text\<close> of the
  elements of \<^verbatim>\<open>soup.select(sel)\<close>, in document order. \<open>re_other\<close> is the regular
  expression compiler on the patterns outside the fragment modelled below. \<open>rand53\<close> is
  the 53-bit draw behind \<^verbatim>\<open>random.random()\<close>.
\<close>

fun req_url :: "request \<Rightarrow> string" where
  "req_url (Get u) = u"
| "req_url (Post u d) = u"

fun requests_of :: "event list \<Rightarrow> request list" where
  "requests_of [] = []"
| "requests_of (Request q # es) = q # requests_of es"
| "requests_of (e # es) = requests_of es"

fun sleeps_of :: "event list \<Rightarrow> real list" where
  "sleeps_of [] = []"
| "sleeps_of (Sleep d # es) = d # sleeps_of es"
| "sleeps_of (e # es) = sleeps_of es"

subsection \<open>Strings\<close>

fun string_of_nat :: "nat \<Rightarrow> string" where
  "string_of_nat n =
     (if n < 10 then [char_of (48 + n)]
      else string_of_nat (n div 10) @ [char_of (48 + n mod 10)])"

declare string_of_nat.simps [simp del]

text \<open>\<^verbatim>\<open>str(e)\<close>: a \<^verbatim>\<open>KeyError\<close> prints the \<^verbatim>\<open>repr\<close> of its key.\<close>

fun str_exn :: "exn \<Rightarrow> string" where
  "str_exn (ConnectionError m) = m"
| "str_exn (Timeout m) = m"
| "str_exn (TypeError m) = m"
| "str_exn (KeyError k) = [CHR 0x27] @ k @ [CHR 0x27]"
| "str_exn (ReError m p) = m @ '' at position '' @ string_of_nat p"

text \<open>\<^verbatim>\<open>b.startswith(a)\<close> and \<^verbatim>\<open>a in b\<close> on strings.\<close>

fun startswith :: "string \<Rightarrow> string \<Rightarrow> bool" where
  "startswith [] b = True"
| "startswith (x # a) [] = False"
| "startswith (x # a) (y # b) = (x = y \<and> startswith a b)"

fun str_in :: "string \<Rightarrow> string \<Rightarrow> bool" where
  "str_in a [] = (a = [])"
| "str_in a (y # b) = (startswith a (y # b) \<or> str_in a b)"

definition lower_chr :: "char \<Rightarrow> char" where
  "lower_chr c =
     (let n = (of_char c :: nat) in if 65 \<le> n \<and> n \<le> 90 then char_of (n + 32) else c)"

definition lower :: "string \<Rightarrow> string" where
  "lower s = map lower_chr s"

subsection \<open>The fragment of \<^verbatim>\<open>re\<close> that is modelled\<close>

text \<open>
  \<^verbatim>\<open>re.search(pattern, string, re.I)\<close> compiles the pattern and searches the string.
  The model covers the patterns made of ordinary characters, \<^verbatim>\<open>.\<close> and the
  parentheses of plain groups: a group neither changes what such a pattern matches nor
  where, so a well-formed pattern is the sequence of its atoms, and the compiler's
  errors are those of unbalanced parentheses, at the position Python reports. A pattern
  with any other special character, or a newline, goes to \<open>re_other\<close>.

  A \<^typ>\<open>char\<close> is a byte. On names and texts beyond ASCII the model therefore
  differs from Python, which works on characters: \<^verbatim>\<open>.\<close> takes one byte of a
  character of several, letters beyond A-Z are not folded, and the position in an error
  message counts bytes. Whether a pattern of the fragment compiles, and so the verdict
  for an invalid one, does not depend on it.
\<close>

definition in_fragment :: "char \<Rightarrow> bool" where
  "in_fragment c =
     (c \<notin> set ''^$*+?{}[]|'' \<and> c \<noteq> CHR 0x5C \<and> c \<noteq> CHR 0x0A)"

datatype atom = Lit char | AnyChar

fun atoms :: "string \<Rightarrow> atom list" where
  "atoms [] = []"
| "atoms (c # cs) =
     (if c = CHR ''('' \<or> c = CHR '')'' then atoms cs
      else if c = CHR ''.'' then AnyChar # atoms cs
      else Lit c # atoms cs)"

text \<open>
  \<open>parens cs pos opened\<close>: the positions of the groups still open are on the stack
  \<open>opened\<close>. A \<^verbatim>\<open>)\<close> with no open group is "unbalanced parenthesis" at its own
  position; a group open at the end is "missing )" at the position of the innermost
  one.
\<close>

fun parens :: "string \<Rightarrow> nat \<Rightarrow> nat list \<Rightarrow> exn + unit" where
  "parens [] pos [] = Inr ()"
| "parens [] pos (p # ps) = Inl (ReError ''missing ), unterminated subpattern'' p)"
| "parens (c # cs) pos opened =
     (if c = CHR ''('' then parens cs (Suc pos) (pos # opened)
      else if c = CHR '')'' then
        (case opened of
           [] \<Rightarrow> Inl (ReError ''unbalanced parenthesis'' pos)
         | p # ps \<Rightarrow> parens cs (Suc pos) ps)
      else parens cs (Suc pos) opened)"

fun atom_matches :: "atom \<Rightarrow> char \<Rightarrow> bool" where
  "atom_matches (Lit c) d = (lower_chr c = lower_chr d)"
| "atom_matches AnyChar d = (d \<noteq> CHR 0x0A)"

fun match_here :: "atom list \<Rightarrow> string \<Rightarrow> bool" where
  "match_here [] s = True"
| "match_here (a # as) [] = False"
| "match_here (a # as) (d # s) = (atom_matches a d \<and> match_here as s)"

fun search_atoms :: "atom list \<Rightarrow> string \<Rightarrow> bool" where
  "search_atoms as [] = (as = [])"
| "search_atoms as (d # s) = (match_here as (d # s) \<or> search_atoms as s)"

definition re_compile ::
  "(string \<Rightarrow> exn + (string \<Rightarrow> bool)) \<Rightarrow> string \<Rightarrow> exn + (string \<Rightarrow> bool)" where
  "re_compile other pat =
     (if list_all in_fragment pat then
        (case parens pat 0 [] of
           Inl e \<Rightarrow> Inl e
         | Inr u \<Rightarrow> Inr (search_atoms (atoms pat)))
      else other pat)"

definition re_search ::
  "(string \<Rightarrow> exn + (string \<Rightarrow> bool)) \<Rightarrow> string \<Rightarrow> string \<Rightarrow> exn + bool" where
  "re_search other pat s =
     (case re_compile other pat of Inl e \<Rightarrow> Inl e | Inr m \<Rightarrow> Inr (m s))"

subsection \<open>Configuration\<close>

definition COUNTRIES :: "string list" where
  "COUNTRIES = [''India'', ''Pakistan'', ''Saudi Arabia'', ''Germany'', ''Nigeria'', ''Bangladesh'']"

definition ugc_india_url :: string where
  "ugc_india_url = ''https://www.ugc.ac.in/recog_College.aspx''"

definition hec_pakistan_url :: string where
  "hec_pakistan_url =
     ''https://www.hec.gov.pk/english/universities/Pages/Recognized-Universities.aspx''"

definition moe_saudi_url :: string where
  "moe_saudi_url =
     ''https://www.moe.gov.sa/en/education/highereducation/Pages/Government-Universities.aspx''"

definition anabin_germany_url :: "string \<Rightarrow> string" where
  "anabin_germany_url institution =
     ''https://anabin.kmk.org/no_cache/filter/institutionen.html?search=1&name='' @ institution"

definition nuc_nigeria_url :: string where
  "nuc_nigeria_url = ''https://www.nuc.edu.ng/nigerian-universities/''"

definition ugc_bangladesh_url :: string where
  "ugc_bangladesh_url = ''http://www.ugc.gov.bd/en/home/privateuniversity/2''"

subsection \<open>The six adapters\<close>

text \<open>
  An adapter returns the boolean it computes or the exception it raises, and the
  requests it has sent up to that point. No adapter reads the status code of a
  response.
\<close>

type_synonym outcome = "(exn + bool) \<times> event list"

text \<open>\<^verbatim>\<open>soup.find('input', {'id': ...})['value']\<close>\<close>

definition subscript_value :: "(string \<times> string) list option \<Rightarrow> exn + string" where
  "subscript_value tag =
     (case tag of
        None \<Rightarrow> Inl (TypeError ([CHR 0x27] @ ''NoneType'' @ [CHR 0x27] @ '' object is not subscriptable''))
      | Some attrs \<Rightarrow>
          (case map_of attrs ''value'' of
             None \<Rightarrow> Inl (KeyError ''value'')
           | Some v \<Rightarrow> Inr v))"

definition check_ugc_india :: "env \<Rightarrow> string \<Rightarrow> outcome" where
  "check_ugc_india env institution =
     (case http env (Get ugc_india_url) of
        Inl e \<Rightarrow> (Inl e, [Request (Get ugc_india_url)])
      | Inr response \<Rightarrow>
     (case subscript_value (soup_find_input env (resp_text response) ''__VIEWSTATE'') of
        Inl e \<Rightarrow> (Inl e, [Request (Get ugc_india_url)])
      | Inr viewstate \<Rightarrow>
     (case subscript_value (soup_find_input env (resp_text response) ''__EVENTVALIDATION'') of
        Inl e \<Rightarrow> (Inl e, [Request (Get ugc_india_url)])
      | Inr eventval \<Rightarrow>
     (let data = [(''__VIEWSTATE'', viewstate),
                  (''__EVENTVALIDATION'', eventval),
                  (''ctl00$ContentPlaceHolder1$txtCollegeName'', institution),
                  (''ctl00$ContentPlaceHolder1$btnSearch'', ''Search'')]
      in case http env (Post ugc_india_url data) of
        Inl e \<Rightarrow>
          (Inl e, [Request (Get ugc_india_url), Request (Post ugc_india_url data)])
      | Inr response2 \<Rightarrow>
          (Inr (\<not> str_in ''No College Found'' (resp_text response2)),
           [Request (Get ugc_india_url), Request (Post ugc_india_url data)])))))"

text \<open>
  \<^verbatim>\<open>any(re.search(institution, div.text, re.I) for div in ...)\<close>: the generator is
  consumed from the left, stops at the first match, and an exception of
  \<^verbatim>\<open>re.search\<close> leaves it. With no element there is no call of \<^verbatim>\<open>re.search\<close>.
\<close>

fun any_search ::
  "(string \<Rightarrow> exn + (string \<Rightarrow> bool)) \<Rightarrow> string \<Rightarrow> string list \<Rightarrow> exn + bool" where
  "any_search other pat [] = Inr False"
| "any_search other pat (d # ds) =
     (case re_search other pat d of
        Inl e \<Rightarrow> Inl e
      | Inr b \<Rightarrow> (if b then Inr True else any_search other pat ds))"

definition check_hec_pakistan :: "env \<Rightarrow> string \<Rightarrow> outcome" where
  "check_hec_pakistan env institution =
     (case http env (Get hec_pakistan_url) of
        Inl e \<Rightarrow> (Inl e, [Request (Get hec_pakistan_url)])
      | Inr response \<Rightarrow>
          (any_search (re_other env) institution
             (soup_select env (resp_text response) ''div.university-name''),
           [Request (Get hec_pakistan_url)]))"

definition check_moe_saudi :: "env \<Rightarrow> string \<Rightarrow> outcome" where
  "check_moe_saudi env institution =
     (case http env (Get moe_saudi_url) of
        Inl e \<Rightarrow> (Inl e, [Request (Get moe_saudi_url)])
      | Inr response \<Rightarrow>
          (Inr (str_in (lower institution) (lower (resp_text response))),
           [Request (Get moe_saudi_url)]))"

definition check_anabin_germany :: "env \<Rightarrow> string \<Rightarrow> outcome" where
  "check_anabin_germany env institution =
     (case http env (Get (anabin_germany_url institution)) of
        Inl e \<Rightarrow> (Inl e, [Request (Get (anabin_germany_url institution))])
      | Inr response \<Rightarrow>
          (Inr (\<not> str_in ''Keine Treffer gefunden'' (resp_text response)),
           [Request (Get (anabin_germany_url institution))]))"

definition check_nuc_nigeria :: "env \<Rightarrow> string \<Rightarrow> outcome" where
  "check_nuc_nigeria env institution =
     (case http env (Get nuc_nigeria_url) of
        Inl e \<Rightarrow> (Inl e, [Request (Get nuc_nigeria_url)])
      | Inr response \<Rightarrow>
          (Inr (str_in (lower institution) (lower (resp_text response))),
           [Request (Get nuc_nigeria_url)]))"

definition check_ugc_bangladesh :: "env \<Rightarrow> string \<Rightarrow> outcome" where
  "check_ugc_bangladesh env institution =
     (case http env (Get ugc_bangladesh_url) of
        Inl e \<Rightarrow> (Inl e, [Request (Get ugc_bangladesh_url)])
      | Inr response \<Rightarrow>
          (Inr (list_ex (\<lambda>li. str_in (lower institution) (lower li))
                  (soup_select env (resp_text response) ''div.content-body li'')),
           [Request (Get ugc_bangladesh_url)]))"

subsection \<open>\<^verbatim>\<open>check_accreditation\<close>\<close>

text \<open>
  \<^verbatim>\<open>random.uniform(a, b)\<close> is \<^verbatim>\<open>a + (b - a) * random()\<close>, and \<^verbatim>\<open>random()\<close> is a
  53-bit integer divided by \<open>2 ^ 53\<close>. The model computes in the reals: the rounding
  of the floating-point sum is left out, so at the largest draw the model's delay is
  just below 3 where the code's is exactly 3.0.
\<close>

definition random_unit :: "53 word \<Rightarrow> real" where
  "random_unit w = real (unat w) / 2 ^ 53"

definition uniform :: "real \<Rightarrow> real \<Rightarrow> 53 word \<Rightarrow> real" where
  "uniform a b w = a + (b - a) * random_unit w"

text \<open>The \<^verbatim>\<open>if/elif\<close> chain of the \<^verbatim>\<open>try\<close> block, lines 103--115.\<close>

definition dispatch :: "env \<Rightarrow> string \<Rightarrow> string \<Rightarrow> outcome" where
  "dispatch env institution country =
     (if country = ''India'' then check_ugc_india env institution
      else if country = ''Pakistan'' then check_hec_pakistan env institution
      else if country = ''Saudi Arabia'' then check_moe_saudi env institution
      else if country = ''Germany'' then check_anabin_germany env institution
      else if country = ''Nigeria'' then check_nuc_nigeria env institution
      else if country = ''Bangladesh'' then check_ugc_bangladesh env institution
      else (Inr False, []))"

text \<open>
  The function under the decorator, lines 100--118: the sleep, the chain, and the
  handler that reports the exception and returns \<^verbatim>\<open>False\<close>.
\<close>

definition check_accreditation_body :: "env \<Rightarrow> string \<Rightarrow> string \<Rightarrow> bool \<times> event list" where
  "check_accreditation_body env institution country =
     (case dispatch env institution country of
        (Inr b, evs) \<Rightarrow> (b, Sleep (uniform 1 3 (rand53 env)) # evs)
      | (Inl e, evs) \<Rightarrow>
          (False,
           Sleep (uniform 1 3 (rand53 env)) # evs @
             [StError (''Accreditation check failed: '' @ str_exn e)]))"

text \<open>
  \<^verbatim>\<open>functools.lru_cache(maxsize=1000)\<close>: the cache is a list of (key, result) pairs,
  the most recently used first. A hit moves the entry to the front and calls nothing.
  A miss calls the function and stores the result in front; a full cache first drops its
  last entry.
\<close>

type_synonym cache = "((string \<times> string) \<times> bool) list"

definition maxsize :: nat where
  "maxsize = 1000"

definition lru_hit :: "string \<times> string \<Rightarrow> bool \<Rightarrow> cache \<Rightarrow> cache" where
  "lru_hit key v cache = (key, v) # filter (\<lambda>entry. fst entry \<noteq> key) cache"

definition lru_miss :: "string \<times> string \<Rightarrow> bool \<Rightarrow> cache \<Rightarrow> cache" where
  "lru_miss key v cache =
     (key, v) # (if maxsize \<le> length cache then butlast cache else cache)"

definition check_accreditation ::
  "env \<Rightarrow> string \<Rightarrow> string \<Rightarrow> cache \<Rightarrow> bool \<times> event list \<times> cache" where
  "check_accreditation env institution country cache =
     (case map_of cache (institution, country) of
        Some v \<Rightarrow> (v, [], lru_hit (institution, country) v cache)
      | None \<Rightarrow>
          (case check_accreditation_body env institution country of
             (v, evs) \<Rightarrow> (v, evs, lru_miss (institution, country) v cache)))"

text \<open>A sequence of calls, each with the environment it meets.\<close>

fun run :: "(env \<times> string \<times> string) list \<Rightarrow> cache \<Rightarrow> bool list \<times> event list \<times> cache" where
  "run [] cache = ([], [], cache)"
| "run ((env, institution, country) # calls) cache =
     (case check_accreditation env institution country cache of
        (v, evs, cache1) \<Rightarrow>
          (case run calls cache1 of
             (vs, evs2, cache2) \<Rightarrow> (v # vs, evs @ evs2, cache2)))"

text \<open>Line 193 of \<^verbatim>\<open>main\<close>: what the user is shown for the boolean.\<close>

definition accreditation_status :: "bool \<Rightarrow> string" where
  "accreditation_status accredited =
     (if accredited then [CHR 0xE2, CHR 0x9C, CHR 0x85] @ '' Recognized''
      else [CHR 0xE2, CHR 0x9D, CHR 0x8C] @ '' Not Recognized'')"

subsection \<open>Sample environments\<close>

text \<open>
  Concrete environments for evaluating the model: \<open>serve t\<close> answers every request
  with status 200 and body \<open>t\<close>, \<open>down\<close> fails every request, and \<open>stub_env\<close> fixes
  what the HTML parser finds whatever the page.
\<close>

definition page :: "string \<Rightarrow> response" where
  "page t = \<lparr>status_code = 200, resp_text = t\<rparr>"

definition serve :: "string \<Rightarrow> request \<Rightarrow> exn + response" where
  "serve t q = Inr (page t)"

definition down :: "request \<Rightarrow> exn + response" where
  "down q = Inl (ConnectionError ''Connection refused'')"

definition stub_env ::
  "(request \<Rightarrow> exn + response) \<Rightarrow> (string \<Rightarrow> (string \<times> string) list option) \<Rightarrow>
   string list \<Rightarrow> env" where
  "stub_env h tags elems =
     \<lparr>http = h, soup_find_input = (\<lambda>html. tags), soup_select = (\<lambda>html sel. elems),
      re_other = (\<lambda>pat. Inr (\<lambda>s. False)), rand53 = 0\<rparr>"

definition no_tags :: "string \<Rightarrow> (string \<times> string) list option" where
  "no_tags i = None"

definition form_tags :: "string \<Rightarrow> (string \<times> string) list option" where
  "form_tags i = Some [(''type'', ''hidden''), (''id'', i), (''value'', ''dDwtMTA4'')]"

text \<open>The same environment with every response's status code replaced.\<close>

definition set_status :: "nat \<Rightarrow> env \<Rightarrow> env" where
  "set_status n env =
     env\<lparr>http := (\<lambda>q. case http env q of
                       Inl e \<Rightarrow> Inl e
                     | Inr r \<Rightarrow> Inr (r\<lparr>status_code := n\<rparr>))\<rparr>"

definition tu_muenchen :: string where
  "tu_muenchen =
     ''Technische Universit'' @ [CHR 0xC3, CHR 0xA4] @ ''t M'' @ [CHR 0xC3, CHR 0xBC] @ ''nchen''"

subsection \<open>The order of last use\<close>

text \<open>
  What "least recently used" means for a sequence of calls, independently of the cache:
  the distinct keys of the sequence, each at the place of its last use, the most
  recently used first.
\<close>

definition most_recent_first :: "(string \<times> string) list \<Rightarrow> (string \<times> string) list" where
  "most_recent_first keys = rev (remdups keys)"

text \<open>\<open>n\<close> calls with \<open>n\<close> different institution names.\<close>

definition sample_calls :: "nat \<Rightarrow> (env \<times> string \<times> string) list" where
  "sample_calls n =
     map (\<lambda>k. (stub_env down no_tags [], replicate k CHR ''a'', ''Nigeria'')) [0..<n]"

section \<open>Properties\<close>

subsection \<open>Strings and the delay\<close>

lemma startswith_iff: "startswith a b \<longleftrightarrow> (\<exists>v. b = a @ v)"
  by (induction a b rule: startswith.induct) auto

lemma str_in_iff: "str_in a b \<longleftrightarrow> (\<exists>u v. b = u @ a @ v)"
proof (induction b)
  case Nil
  show ?case by simp
next
  case (Cons y b)
  have "(\<exists>u v. y # b = u @ a @ v) \<longleftrightarrow> (\<exists>v. y # b = a @ v) \<or> (\<exists>u v. b = u @ a @ v)"
  proof
    assume "\<exists>u v. y # b = u @ a @ v"
    then obtain u v where uv: "y # b = u @ a @ v" by blast
    show "(\<exists>v. y # b = a @ v) \<or> (\<exists>u v. b = u @ a @ v)"
    proof (cases u)
      case Nil
      with uv show ?thesis by auto
    next
      case (Cons x u')
      with uv have "b = u' @ a @ v" by simp
      then show ?thesis by blast
    qed
  next
    assume "(\<exists>v. y # b = a @ v) \<or> (\<exists>u v. b = u @ a @ v)"
    then show "\<exists>u v. y # b = u @ a @ v"
    proof
      assume "\<exists>v. y # b = a @ v"
      then obtain v where "y # b = [] @ a @ v" by auto
      then show ?thesis by blast
    next
      assume "\<exists>u v. b = u @ a @ v"
      then obtain u v where "y # b = (y # u) @ a @ v" by auto
      then show ?thesis by blast
    qed
  qed
  with Cons show ?case by (simp add: startswith_iff)
qed

lemma str_in_Nil: "str_in [] b"
  by (cases b) simp_all

lemma random_unit_bounds: "0 \<le> random_unit w \<and> random_unit w < 1"
proof -
  have "unat w < 2 ^ 53" using unsigned_less [of w] by simp
  then have b: "real (unat w) < 2 ^ 53"
    by (metis of_nat_less_iff of_nat_numeral of_nat_power)
  have a: "0 \<le> real (unat w)" by (rule of_nat_0_le_iff)
  show ?thesis using a b by (simp add: random_unit_def)
qed

lemma uniform_1_3_bounds: "1 \<le> uniform 1 3 w \<and> uniform 1 3 w < 3"
  using random_unit_bounds [of w] by (simp add: uniform_def)


subsection \<open>The choice of the adapter\<close>

text \<open>
  Claim C3. For each of the six countries the \<^verbatim>\<open>if/elif\<close> chain runs the adapter of
  that country and nothing else: its result and its requests are those of the adapter
  (India: \<open>check_ugc_india\<close>, Pakistan: \<open>check_hec_pakistan\<close>, Saudi Arabia:
  \<open>check_moe_saudi\<close>, Germany: \<open>check_anabin_germany\<close>, Nigeria:
  \<open>check_nuc_nigeria\<close>, Bangladesh: \<open>check_ugc_bangladesh\<close>). Every request it sends
  goes to the URL of that registry, at least one is sent, and the six URLs are pairwise
  different.
\<close>

theorem dispatch_selects_adapter:
  "dispatch env i ''India'' = check_ugc_india env i \<and>
   dispatch env i ''Pakistan'' = check_hec_pakistan env i \<and>
   dispatch env i ''Saudi Arabia'' = check_moe_saudi env i \<and>
   dispatch env i ''Germany'' = check_anabin_germany env i \<and>
   dispatch env i ''Nigeria'' = check_nuc_nigeria env i \<and>
   dispatch env i ''Bangladesh'' = check_ugc_bangladesh env i \<and>
   set (map req_url (requests_of (snd (dispatch env i ''India'')))) = {ugc_india_url} \<and>
   map req_url (requests_of (snd (dispatch env i ''Pakistan''))) = [hec_pakistan_url] \<and>
   map req_url (requests_of (snd (dispatch env i ''Saudi Arabia''))) = [moe_saudi_url] \<and>
   map req_url (requests_of (snd (dispatch env i ''Germany''))) = [anabin_germany_url i] \<and>
   map req_url (requests_of (snd (dispatch env i ''Nigeria''))) = [nuc_nigeria_url] \<and>
   map req_url (requests_of (snd (dispatch env i ''Bangladesh''))) = [ugc_bangladesh_url] \<and>
   distinct [ugc_india_url, hec_pakistan_url, moe_saudi_url, anabin_germany_url i,
             nuc_nigeria_url, ugc_bangladesh_url]"
proof -
  have d: "dispatch env i ''India'' = check_ugc_india env i"
     "dispatch env i ''Pakistan'' = check_hec_pakistan env i"
     "dispatch env i ''Saudi Arabia'' = check_moe_saudi env i"
     "dispatch env i ''Germany'' = check_anabin_germany env i"
     "dispatch env i ''Nigeria'' = check_nuc_nigeria env i"
     "dispatch env i ''Bangladesh'' = check_ugc_bangladesh env i"
    by (simp_all add: dispatch_def)
  have r1: "set (map req_url (requests_of (snd (check_ugc_india env i)))) = {ugc_india_url}"
    by (simp add: check_ugc_india_def Let_def split: sum.splits)
  have r2: "map req_url (requests_of (snd (check_hec_pakistan env i))) = [hec_pakistan_url]"
    by (simp add: check_hec_pakistan_def split: sum.splits)
  have r3: "map req_url (requests_of (snd (check_moe_saudi env i))) = [moe_saudi_url]"
    by (simp add: check_moe_saudi_def split: sum.splits)
  have r4: "map req_url (requests_of (snd (check_anabin_germany env i))) = [anabin_germany_url i]"
    by (simp add: check_anabin_germany_def split: sum.splits)
  have r5: "map req_url (requests_of (snd (check_nuc_nigeria env i))) = [nuc_nigeria_url]"
    by (simp add: check_nuc_nigeria_def split: sum.splits)
  have r6: "map req_url (requests_of (snd (check_ugc_bangladesh env i))) = [ugc_bangladesh_url]"
    by (simp add: check_ugc_bangladesh_def split: sum.splits)
  have u: "distinct [ugc_india_url, hec_pakistan_url, moe_saudi_url, anabin_germany_url i,
             nuc_nigeria_url, ugc_bangladesh_url]"
    by (simp add: ugc_india_url_def hec_pakistan_url_def moe_saudi_url_def
        anabin_germany_url_def nuc_nigeria_url_def ugc_bangladesh_url_def)
  show ?thesis using d r1 r2 r3 r4 r5 r6 u by simp
qed

subsection \<open>Germany\<close>

text \<open>
  Claim C6. For Germany the institution name is appended to the search URL as the value
  of the query parameter \<^verbatim>\<open>name\<close>, and when the request returns a response the
  verdict is \<open>False\<close> (not recognized) if the body contains the phrase
  "Keine Treffer gefunden" and \<open>True\<close> (recognized) if it does not.
\<close>

theorem germany_verdict:
  assumes "http env (Get (anabin_germany_url institution)) = Inr response"
  shows "check_anabin_germany env institution =
           (Inr (\<not> str_in ''Keine Treffer gefunden'' (resp_text response)),
            [Request (Get (''https://anabin.kmk.org/no_cache/filter/institutionen.html?search=1&name='' @ institution))]) \<and>
         fst (check_accreditation_body env institution ''Germany'') =
           (\<not> str_in ''Keine Treffer gefunden'' (resp_text response)) \<and>
         (str_in ''Keine Treffer gefunden'' (resp_text response) \<longleftrightarrow>
            (\<exists>u v. resp_text response = u @ ''Keine Treffer gefunden'' @ v))"
proof -
  have a: "check_anabin_germany env institution =
           (Inr (\<not> str_in ''Keine Treffer gefunden'' (resp_text response)),
            [Request (Get (''https://anabin.kmk.org/no_cache/filter/institutionen.html?search=1&name='' @ institution))])"
    using assms by (simp add: check_anabin_germany_def anabin_germany_url_def)
  have "dispatch env institution ''Germany'' = check_anabin_germany env institution"
    by (simp add: dispatch_def)
  with a have b: "fst (check_accreditation_body env institution ''Germany'') =
           (\<not> str_in ''Keine Treffer gefunden'' (resp_text response))"
    by (simp add: check_accreditation_body_def)
  show ?thesis using a b str_in_iff by blast
qed

theorem germany_verdict_witness:
  "http (stub_env (serve ''<p>Keine Treffer gefunden</p>'') no_tags [])
      (Get (anabin_germany_url tu_muenchen)) = Inr (page ''<p>Keine Treffer gefunden</p>'') \<and>
   fst (check_accreditation_body (stub_env (serve ''<p>Keine Treffer gefunden</p>'') no_tags [])
      tu_muenchen ''Germany'') = False \<and>
   http (stub_env (serve ''<p>1 Treffer</p>'') no_tags [])
      (Get (anabin_germany_url tu_muenchen)) = Inr (page ''<p>1 Treffer</p>'') \<and>
   fst (check_accreditation_body (stub_env (serve ''<p>1 Treffer</p>'') no_tags [])
      tu_muenchen ''Germany'') = True"
proof -
  have h1: "http (stub_env (serve ''<p>Keine Treffer gefunden</p>'') no_tags [])
      (Get (anabin_germany_url tu_muenchen)) = Inr (page ''<p>Keine Treffer gefunden</p>'')"
    by (simp add: stub_env_def serve_def)
  have h2: "http (stub_env (serve ''<p>1 Treffer</p>'') no_tags [])
      (Get (anabin_germany_url tu_muenchen)) = Inr (page ''<p>1 Treffer</p>'')"
    by (simp add: stub_env_def serve_def)
  show ?thesis
    using h1 h2 germany_verdict [OF h1] germany_verdict [OF h2]
    by (simp add: page_def)
qed


subsection \<open>The empty institution name\<close>

text \<open>
  Claim C9. With the empty institution name the adapters of Saudi Arabia and Nigeria
  return \<open>True\<close> whenever the request for the listing page returns a response,
  whatever the page contains: the empty string is contained in every string.
\<close>

theorem empty_institution_recognized:
  "(http env (Get moe_saudi_url) = Inr response \<longrightarrow>
      check_moe_saudi env [] = (Inr True, [Request (Get moe_saudi_url)]) \<and>
      fst (check_accreditation_body env [] ''Saudi Arabia'') = True) \<and>
   (http env (Get nuc_nigeria_url) = Inr response \<longrightarrow>
      check_nuc_nigeria env [] = (Inr True, [Request (Get nuc_nigeria_url)]) \<and>
      fst (check_accreditation_body env [] ''Nigeria'') = True)"
  by (simp add: check_moe_saudi_def check_nuc_nigeria_def lower_def str_in_Nil
      check_accreditation_body_def dispatch_def)

theorem empty_institution_recognized_witness:
  "http (stub_env (serve ''<html>404 page not found</html>'') no_tags []) (Get moe_saudi_url) =
     Inr (page ''<html>404 page not found</html>'') \<and>
   http (stub_env (serve ''<html>404 page not found</html>'') no_tags []) (Get nuc_nigeria_url) =
     Inr (page ''<html>404 page not found</html>'') \<and>
   fst (check_accreditation_body (stub_env (serve ''<html>404 page not found</html>'') no_tags [])
     [] ''Saudi Arabia'') = True \<and>
   fst (check_accreditation_body (stub_env (serve ''<html>404 page not found</html>'') no_tags [])
     [] ''Nigeria'') = True"
proof -
  have h: "\<And>q. http (stub_env (serve ''<html>404 page not found</html>'') no_tags []) q =
     Inr (page ''<html>404 page not found</html>'')"
    by (simp add: stub_env_def serve_def)
  show ?thesis
    using h empty_institution_recognized
      [of "stub_env (serve ''<html>404 page not found</html>'') no_tags []"
          "page ''<html>404 page not found</html>''"]
    by simp
qed

subsection \<open>The shape of a call\<close>

lemma dispatch_unknown:
  "country \<notin> set COUNTRIES \<Longrightarrow> dispatch env institution country = (Inr False, [])"
  by (simp add: COUNTRIES_def dispatch_def)

lemma body_of_dispatch:
  "check_accreditation_body env institution country =
     (case fst (dispatch env institution country) of
        Inr b \<Rightarrow> (b, Sleep (uniform 1 3 (rand53 env)) # snd (dispatch env institution country))
      | Inl e \<Rightarrow> (False, Sleep (uniform 1 3 (rand53 env)) # snd (dispatch env institution country) @
                    [StError (''Accreditation check failed: '' @ str_exn e)]))"
  by (cases "dispatch env institution country")
     (simp add: check_accreditation_body_def split: sum.splits)

lemma check_accreditation_miss:
  "map_of cache (institution, country) = None \<Longrightarrow>
   check_accreditation env institution country cache =
     (fst (check_accreditation_body env institution country),
      snd (check_accreditation_body env institution country),
      lru_miss (institution, country) (fst (check_accreditation_body env institution country)) cache)"
  by (simp add: check_accreditation_def split: prod.splits)

lemma check_accreditation_hit:
  "map_of cache (institution, country) = Some v \<Longrightarrow>
   check_accreditation env institution country cache =
     (v, [], lru_hit (institution, country) v cache)"
  by (simp add: check_accreditation_def)

subsection \<open>A country outside the list\<close>

text \<open>
  Claim C2, as amended. For a country outside the six of \<open>COUNTRIES\<close> the chain runs
  no adapter and sends no request; it falls through to \<^verbatim>\<open>return False\<close>. No exception
  is raised and nothing is reported: the call sleeps, returns \<open>False\<close>, and the
  \<open>False\<close> is stored in the cache.
\<close>

theorem unknown_country_returns_False:
  assumes "country \<notin> set COUNTRIES"
  shows "dispatch env institution country = (Inr False, []) \<and>
         check_accreditation_body env institution country =
           (False, [Sleep (uniform 1 3 (rand53 env))]) \<and>
         (map_of cache (institution, country) = None \<longrightarrow>
            check_accreditation env institution country cache =
              (False, [Sleep (uniform 1 3 (rand53 env))],
               lru_miss (institution, country) False cache))"
  using dispatch_unknown [OF assms, of env institution]
  by (simp add: body_of_dispatch check_accreditation_miss)

theorem unknown_country_returns_False_witness:
  "''France'' \<notin> set COUNTRIES \<and>
   map_of ([] :: cache) (''Sorbonne'', ''France'') = None \<and>
   check_accreditation (stub_env down no_tags []) ''Sorbonne'' ''France'' [] =
     (False, [Sleep 1], [((''Sorbonne'', ''France''), False)])"
proof -
  have h: "''France'' \<notin> set COUNTRIES" by (simp add: COUNTRIES_def)
  show ?thesis
    using h unknown_country_returns_False [OF h, of "stub_env down no_tags []" "''Sorbonne''" "[]"]
    by (simp add: lru_miss_def stub_env_def uniform_def random_unit_def maxsize_def)
qed

text \<open>
  Claim C2, as stated, fails: for the country "France" the chain returns the value
  \<open>False\<close> and raises no error, and the call reports nothing.
\<close>

theorem unknown_country_not_rejected:
  "fst (dispatch (stub_env down no_tags []) ''Sorbonne'' ''France'') = Inr False \<and>
   check_accreditation_body (stub_env down no_tags []) ''Sorbonne'' ''France'' = (False, [Sleep 1])"
  by (simp add: check_accreditation_body_def dispatch_def stub_env_def uniform_def random_unit_def)

subsection \<open>Failing lookups\<close>

lemma set_status_fields:
  "http (set_status n env) q =
     (case http env q of Inl e \<Rightarrow> Inl e | Inr r \<Rightarrow> Inr (r\<lparr>status_code := n\<rparr>))"
  "soup_find_input (set_status n env) = soup_find_input env"
  "soup_select (set_status n env) = soup_select env"
  "re_other (set_status n env) = re_other env"
  "rand53 (set_status n env) = rand53 env"
  by (simp_all add: set_status_def)

lemma set_status_india: "check_ugc_india (set_status n env) i = check_ugc_india env i"
  by (simp add: check_ugc_india_def set_status_fields Let_def split: sum.splits)

lemma set_status_pakistan: "check_hec_pakistan (set_status n env) i = check_hec_pakistan env i"
  by (simp add: check_hec_pakistan_def set_status_fields split: sum.splits)

lemma set_status_saudi: "check_moe_saudi (set_status n env) i = check_moe_saudi env i"
  by (simp add: check_moe_saudi_def set_status_fields split: sum.splits)

lemma set_status_germany: "check_anabin_germany (set_status n env) i = check_anabin_germany env i"
  by (simp add: check_anabin_germany_def set_status_fields split: sum.splits)

lemma set_status_nigeria: "check_nuc_nigeria (set_status n env) i = check_nuc_nigeria env i"
  by (simp add: check_nuc_nigeria_def set_status_fields split: sum.splits)

lemma set_status_bangladesh: "check_ugc_bangladesh (set_status n env) i = check_ugc_bangladesh env i"
  by (simp add: check_ugc_bangladesh_def set_status_fields split: sum.splits)

lemma set_status_dispatch: "dispatch (set_status n env) i c = dispatch env i c"
  by (simp add: dispatch_def set_status_india set_status_pakistan set_status_saudi
      set_status_germany set_status_nigeria set_status_bangladesh)

lemma set_status_body:
  "check_accreditation_body (set_status n env) i c = check_accreditation_body env i c"
  by (simp add: body_of_dispatch set_status_dispatch set_status_fields split: sum.splits)

lemma body_failure:
  "fst (dispatch env institution country) = Inl e \<Longrightarrow>
   check_accreditation_body env institution country =
     (False, Sleep (uniform 1 3 (rand53 env)) # snd (dispatch env institution country) @
        [StError (''Accreditation check failed: '' @ str_exn e)])"
  by (simp add: body_of_dispatch)

lemma get_failure:
  assumes "http env (Get u) = Inl e"
  shows "u = ugc_india_url \<Longrightarrow> dispatch env i ''India'' = (Inl e, [Request (Get u)])"
    and "u = hec_pakistan_url \<Longrightarrow> dispatch env i ''Pakistan'' = (Inl e, [Request (Get u)])"
    and "u = moe_saudi_url \<Longrightarrow> dispatch env i ''Saudi Arabia'' = (Inl e, [Request (Get u)])"
    and "u = anabin_germany_url i \<Longrightarrow> dispatch env i ''Germany'' = (Inl e, [Request (Get u)])"
    and "u = nuc_nigeria_url \<Longrightarrow> dispatch env i ''Nigeria'' = (Inl e, [Request (Get u)])"
    and "u = ugc_bangladesh_url \<Longrightarrow> dispatch env i ''Bangladesh'' = (Inl e, [Request (Get u)])"
  using assms
  by (simp_all add: dispatch_def check_ugc_india_def check_hec_pakistan_def check_moe_saudi_def
      check_anabin_germany_def check_nuc_nigeria_def check_ugc_bangladesh_def)

lemma india_missing_viewstate:
  assumes "http env (Get ugc_india_url) = Inr response"
    and "soup_find_input env (resp_text response) ''__VIEWSTATE'' = None"
  shows "dispatch env i ''India'' =
     (Inl (TypeError ([CHR 0x27] @ ''NoneType'' @ [CHR 0x27] @ '' object is not subscriptable'')),
      [Request (Get ugc_india_url)])"
  using assms by (simp add: dispatch_def check_ugc_india_def subscript_value_def)

text \<open>
  Claim C1, as amended. \<open>check_accreditation\<close> returns a boolean, so a failed lookup
  has no verdict of its own. Whenever the adapter raises (a request that fails or times
  out, or for India a form page without the \<^verbatim>\<open>__VIEWSTATE\<close> field, which raises the
  \<^verbatim>\<open>TypeError\<close> of subscripting \<^verbatim>\<open>None\<close>), the handler reports
  "Accreditation check failed: " followed by the message and the call returns
  \<open>False\<close>, the value it returns for an institution that is not listed. A response
  with a status outside 2xx raises nothing: the status code is never read, and the body
  is matched like any other.
\<close>

theorem lookup_failure_returns_False:
  "(fst (dispatch env institution country) = Inl e \<longrightarrow>
      check_accreditation_body env institution country =
        (False, Sleep (uniform 1 3 (rand53 env)) # snd (dispatch env institution country) @
           [StError (''Accreditation check failed: '' @ str_exn e)]) \<and>
      (map_of cache (institution, country) = None \<longrightarrow>
         fst (check_accreditation env institution country cache) = False)) \<and>
   (http env (Get ugc_india_url) = Inl e \<longrightarrow>
      fst (dispatch env institution ''India'') = Inl e) \<and>
   (http env (Get hec_pakistan_url) = Inl e \<longrightarrow>
      fst (dispatch env institution ''Pakistan'') = Inl e) \<and>
   (http env (Get moe_saudi_url) = Inl e \<longrightarrow>
      fst (dispatch env institution ''Saudi Arabia'') = Inl e) \<and>
   (http env (Get (anabin_germany_url institution)) = Inl e \<longrightarrow>
      fst (dispatch env institution ''Germany'') = Inl e) \<and>
   (http env (Get nuc_nigeria_url) = Inl e \<longrightarrow>
      fst (dispatch env institution ''Nigeria'') = Inl e) \<and>
   (http env (Get ugc_bangladesh_url) = Inl e \<longrightarrow>
      fst (dispatch env institution ''Bangladesh'') = Inl e) \<and>
   (http env (Get ugc_india_url) = Inr response \<and>
    soup_find_input env (resp_text response) ''__VIEWSTATE'' = None \<longrightarrow>
      check_accreditation_body env institution ''India'' =
        (False,
         [Sleep (uniform 1 3 (rand53 env)), Request (Get ugc_india_url),
          StError (''Accreditation check failed: '' @ [CHR 0x27] @ ''NoneType'' @ [CHR 0x27] @
                   '' object is not subscriptable'')])) \<and>
   check_accreditation_body (set_status n env) institution country =
     check_accreditation_body env institution country"
proof -
  have a: "fst (dispatch env institution country) = Inl e \<longrightarrow>
      check_accreditation_body env institution country =
        (False, Sleep (uniform 1 3 (rand53 env)) # snd (dispatch env institution country) @
           [StError (''Accreditation check failed: '' @ str_exn e)]) \<and>
      (map_of cache (institution, country) = None \<longrightarrow>
         fst (check_accreditation env institution country cache) = False)"
    by (simp add: body_failure check_accreditation_miss)
  have b: "http env (Get ugc_india_url) = Inr response \<and>
    soup_find_input env (resp_text response) ''__VIEWSTATE'' = None \<longrightarrow>
      check_accreditation_body env institution ''India'' =
        (False,
         [Sleep (uniform 1 3 (rand53 env)), Request (Get ugc_india_url),
          StError (''Accreditation check failed: '' @ [CHR 0x27] @ ''NoneType'' @ [CHR 0x27] @
                   '' object is not subscriptable'')])"
    using india_missing_viewstate [of env response institution]
    by (simp add: body_of_dispatch)
  show ?thesis
    using a b get_failure [of env _ e institution] set_status_body [of n env institution country]
    by simp
qed

theorem lookup_failure_returns_False_witness:
  "fst (dispatch (stub_env down no_tags []) ''Some College'' ''India'') =
     Inl (ConnectionError ''Connection refused'') \<and>
   map_of ([] :: cache) (''Some College'', ''India'') = None \<and>
   http (stub_env down no_tags []) (Get ugc_india_url) = Inl (ConnectionError ''Connection refused'') \<and>
   http (stub_env down no_tags []) (Get hec_pakistan_url) = Inl (ConnectionError ''Connection refused'') \<and>
   http (stub_env down no_tags []) (Get moe_saudi_url) = Inl (ConnectionError ''Connection refused'') \<and>
   http (stub_env down no_tags []) (Get (anabin_germany_url ''Some College'')) =
     Inl (ConnectionError ''Connection refused'') \<and>
   http (stub_env down no_tags []) (Get nuc_nigeria_url) = Inl (ConnectionError ''Connection refused'') \<and>
   http (stub_env down no_tags []) (Get ugc_bangladesh_url) = Inl (ConnectionError ''Connection refused'') \<and>
   check_accreditation (stub_env down no_tags []) ''Some College'' ''India'' [] =
     (False,
      [Sleep 1, Request (Get ugc_india_url),
       StError ''Accreditation check failed: Connection refused''],
      [((''Some College'', ''India''), False)]) \<and>
   http (stub_env (serve ''<form></form>'') no_tags []) (Get ugc_india_url) =
     Inr (page ''<form></form>'') \<and>
   soup_find_input (stub_env (serve ''<form></form>'') no_tags [])
     (resp_text (page ''<form></form>'')) ''__VIEWSTATE'' = None \<and>
   fst (check_accreditation_body (stub_env (serve ''<form></form>'') no_tags [])
     ''Some College'' ''India'') = False"
proof -
  have h: "\<And>q. http (stub_env down no_tags []) q = Inl (ConnectionError ''Connection refused'')"
    by (simp add: stub_env_def down_def)
  have d: "fst (dispatch (stub_env down no_tags []) ''Some College'' ''India'') =
     Inl (ConnectionError ''Connection refused'')"
    using get_failure(1) [OF h refl] by simp
  have r: "rand53 (stub_env down no_tags []) = 0" "uniform 1 3 0 = 1"
    by (simp_all add: stub_env_def uniform_def random_unit_def)
  have g: "http (stub_env (serve ''<form></form>'') no_tags []) (Get ugc_india_url) =
     Inr (page ''<form></form>'')"
    by (simp add: stub_env_def serve_def)
  have f: "soup_find_input (stub_env (serve ''<form></form>'') no_tags [])
     (resp_text (page ''<form></form>'')) ''__VIEWSTATE'' = None"
    by (simp add: stub_env_def no_tags_def)
  have m: "map_of ([] :: cache) (''Some College'', ''India'') = None" by simp
  have c1: "check_accreditation (stub_env down no_tags []) ''Some College'' ''India'' [] =
     (False,
      [Sleep 1, Request (Get ugc_india_url),
       StError ''Accreditation check failed: Connection refused''],
      [((''Some College'', ''India''), False)])"
    using lookup_failure_returns_False
      [of "stub_env down no_tags []" "''Some College''" "''India''"
          "ConnectionError ''Connection refused''" "[]"] d r get_failure(1) [OF h refl]
    by (simp add: check_accreditation_miss lru_miss_def maxsize_def)
  have c2: "fst (check_accreditation_body (stub_env (serve ''<form></form>'') no_tags [])
     ''Some College'' ''India'') = False"
    using lookup_failure_returns_False
      [of "stub_env (serve ''<form></form>'') no_tags []" "''Some College''" "''India''"
          _ _ "page ''<form></form>''"] g f
    by simp
  show ?thesis using h d m g f c1 c2 by simp
qed

text \<open>
  Claim C1, as stated, fails: a form page without \<^verbatim>\<open>__VIEWSTATE\<close> and a result page
  saying "No College Found" give the same verdict \<open>False\<close>, which the interface
  shows as "Not Recognized".
\<close>

theorem lookup_failure_shown_as_not_recognized:
  "check_accreditation_body (stub_env (serve ''<form></form>'') no_tags [])
     ''Some College'' ''India'' =
     (False,
      [Sleep 1, Request (Get ugc_india_url),
       StError (''Accreditation check failed: '' @ [CHR 0x27] @ ''NoneType'' @ [CHR 0x27] @
                '' object is not subscriptable'')]) \<and>
   fst (check_accreditation_body (stub_env (serve ''<p>No College Found</p>'') form_tags [])
     ''Some College'' ''India'') = False \<and>
   accreditation_status
     (fst (check_accreditation_body (stub_env (serve ''<form></form>'') no_tags [])
        ''Some College'' ''India'')) =
     [CHR 0xE2, CHR 0x9D, CHR 0x8C] @ '' Not Recognized''"
  by (simp add: check_accreditation_body_def dispatch_def check_ugc_india_def
      subscript_value_def stub_env_def serve_def page_def no_tags_def form_tags_def
      uniform_def random_unit_def accreditation_status_def)

subsection \<open>The cache, one call after another\<close>

lemma filter_absent:
  "map_of cache key = None \<Longrightarrow> filter (\<lambda>entry. fst entry \<noteq> key) cache = cache"
  by (induction cache) (auto split: if_splits)

lemma map_of_butlast_None:
  "map_of cache key = None \<Longrightarrow> map_of (butlast cache) key = None"
  by (induction cache) (auto split: if_splits)

lemma lru_hit_after_miss:
  "map_of cache key = None \<Longrightarrow> lru_hit key v (lru_miss key v cache) = lru_miss key v cache"
  by (simp add: lru_hit_def lru_miss_def filter_absent map_of_butlast_None)

lemma lru_hit_idem: "lru_hit key v (lru_hit key v cache) = lru_hit key v cache"
  by (simp add: lru_hit_def)

lemma map_of_lru: "map_of (lru_miss key v cache) key = Some v" "map_of (lru_hit key v cache) key = Some v"
  by (simp_all add: lru_miss_def lru_hit_def)

lemma second_call:
  "check_accreditation env2 institution country
     (snd (snd (check_accreditation env institution country cache))) =
   (fst (check_accreditation env institution country cache), [],
    snd (snd (check_accreditation env institution country cache)))"
proof (cases "map_of cache (institution, country)")
  case None
  then show ?thesis
    by (simp add: check_accreditation_miss check_accreditation_hit map_of_lru lru_hit_after_miss)
next
  case (Some v)
  then show ?thesis
    by (simp add: check_accreditation_hit map_of_lru lru_hit_idem)
qed

lemma requests_of_append: "requests_of (xs @ ys) = requests_of xs @ requests_of ys"
  by (induction xs rule: requests_of.induct) simp_all

lemma sleeps_of_append: "sleeps_of (xs @ ys) = sleeps_of xs @ sleeps_of ys"
  by (induction xs rule: sleeps_of.induct) simp_all

lemma india_requests:
  "1 \<le> length (requests_of (snd (check_ugc_india env i))) \<and>
   length (requests_of (snd (check_ugc_india env i))) \<le> 2"
  by (simp add: check_ugc_india_def Let_def split: sum.splits)

lemma other_requests:
  "length (requests_of (snd (check_hec_pakistan env i))) = 1"
  "length (requests_of (snd (check_moe_saudi env i))) = 1"
  "length (requests_of (snd (check_anabin_germany env i))) = 1"
  "length (requests_of (snd (check_nuc_nigeria env i))) = 1"
  "length (requests_of (snd (check_ugc_bangladesh env i))) = 1"
  by (simp_all add: check_hec_pakistan_def check_moe_saudi_def check_anabin_germany_def
      check_nuc_nigeria_def check_ugc_bangladesh_def split: sum.splits)

lemma dispatch_request_count:
  "length (requests_of (snd (dispatch env i c))) =
     (if c = ''India'' then length (requests_of (snd (check_ugc_india env i)))
      else if c \<in> set COUNTRIES then 1 else 0)"
  by (simp add: dispatch_def COUNTRIES_def other_requests)

lemma dispatch_no_sleep: "sleeps_of (snd (dispatch env i c)) = []"
  by (simp add: dispatch_def check_ugc_india_def check_hec_pakistan_def check_moe_saudi_def
      check_anabin_germany_def check_nuc_nigeria_def check_ugc_bangladesh_def Let_def
      split: sum.splits)

lemma body_requests:
  "requests_of (snd (check_accreditation_body env i c)) = requests_of (snd (dispatch env i c))"
  by (simp add: body_of_dispatch requests_of_append split: sum.splits)

lemma body_events:
  "\<exists>rest. snd (check_accreditation_body env i c) = Sleep (uniform 1 3 (rand53 env)) # rest \<and>
     sleeps_of rest = [] \<and> requests_of rest = requests_of (snd (dispatch env i c))"
  by (simp add: body_of_dispatch requests_of_append sleeps_of_append dispatch_no_sleep
      split: sum.splits)

text \<open>
  Claim C4. Two calls in a row with the same institution and country return the same
  verdict, and the second is served from the cache: it sends no request, does not sleep
  and reports nothing, whatever the registries would answer then. When the first call
  misses the cache, the two calls together make exactly one lookup: their events are
  those of one run of the function under the decorator, with one sleep and the requests
  of one run of the \<^verbatim>\<open>if/elif\<close> chain, which for each of the six countries is one
  run of its adapter and sends at least one request.
\<close>

theorem two_calls_one_lookup:
  "check_accreditation env2 institution country
     (snd (snd (check_accreditation env institution country cache))) =
   (fst (check_accreditation env institution country cache), [],
    snd (snd (check_accreditation env institution country cache))) \<and>
   (map_of cache (institution, country) = None \<longrightarrow>
      run [(env, institution, country), (env2, institution, country)] cache =
        ([fst (check_accreditation_body env institution country),
          fst (check_accreditation_body env institution country)],
         snd (check_accreditation_body env institution country),
         lru_miss (institution, country)
           (fst (check_accreditation_body env institution country)) cache) \<and>
      length (sleeps_of (fst (snd
        (run [(env, institution, country), (env2, institution, country)] cache)))) = 1 \<and>
      requests_of (fst (snd
        (run [(env, institution, country), (env2, institution, country)] cache))) =
        requests_of (snd (dispatch env institution country)) \<and>
      (country \<in> set COUNTRIES \<longrightarrow>
         requests_of (snd (dispatch env institution country)) \<noteq> []))"
proof -
  let ?v = "fst (check_accreditation_body env institution country)"
  let ?evs = "snd (check_accreditation_body env institution country)"
  let ?c1 = "lru_miss (institution, country) ?v cache"
  have a: "check_accreditation env2 institution country
     (snd (snd (check_accreditation env institution country cache))) =
   (fst (check_accreditation env institution country cache), [],
    snd (snd (check_accreditation env institution country cache)))"
    by (rule second_call)
  have b: "run [(env, institution, country), (env2, institution, country)] cache =
        ([?v, ?v], ?evs, ?c1)"
    if miss: "map_of cache (institution, country) = None"
  proof -
    have first: "check_accreditation env institution country cache = (?v, ?evs, ?c1)"
      using miss by (simp add: check_accreditation_miss)
    have "check_accreditation env2 institution country ?c1 = (?v, [], ?c1)"
      using a by (simp add: first)
    with first show ?thesis by simp
  qed
  have s: "length (sleeps_of ?evs) = 1"
    using body_events [of env institution country] by auto
  have r: "requests_of ?evs = requests_of (snd (dispatch env institution country))"
    by (rule body_requests)
  have n: "requests_of (snd (dispatch env institution country)) \<noteq> []"
    if "country \<in> set COUNTRIES"
  proof -
    have "0 < length (requests_of (snd (dispatch env institution country)))"
      using that india_requests [of env institution]
      unfolding dispatch_request_count by (cases "country = ''India''") auto
    then show ?thesis by (cases "requests_of (snd (dispatch env institution country))") simp_all
  qed
  show ?thesis using a b s r n by simp
qed

theorem two_calls_one_lookup_witness:
  "map_of ([] :: cache) (tu_muenchen, ''Germany'') = None \<and>
   ''Germany'' \<in> set COUNTRIES \<and>
   run [(stub_env (serve ''<p>1 Treffer</p>'') no_tags [], tu_muenchen, ''Germany''),
        (stub_env down no_tags [], tu_muenchen, ''Germany'')] [] =
     ([True, True], [Sleep 1, Request (Get (anabin_germany_url tu_muenchen))],
      [((tu_muenchen, ''Germany''), True)])"
proof -
  let ?env = "stub_env (serve ''<p>1 Treffer</p>'') no_tags []"
  have m: "map_of ([] :: cache) (tu_muenchen, ''Germany'') = None" by simp
  have g: "''Germany'' \<in> set COUNTRIES" by (simp add: COUNTRIES_def)
  have c: "check_accreditation_body ?env tu_muenchen ''Germany'' =
     (True, [Sleep 1, Request (Get (anabin_germany_url tu_muenchen))])"
    by (simp add: check_accreditation_body_def dispatch_def check_anabin_germany_def
        stub_env_def serve_def page_def uniform_def random_unit_def)
  from two_calls_one_lookup [of "stub_env down no_tags []" tu_muenchen "''Germany''" ?env "[]"] m
  have "run [(?env, tu_muenchen, ''Germany''), (stub_env down no_tags [], tu_muenchen, ''Germany'')] [] =
        ([fst (check_accreditation_body ?env tu_muenchen ''Germany''),
          fst (check_accreditation_body ?env tu_muenchen ''Germany'')],
         snd (check_accreditation_body ?env tu_muenchen ''Germany''),
         lru_miss (tu_muenchen, ''Germany'')
           (fst (check_accreditation_body ?env tu_muenchen ''Germany'')) [])"
    by blast
  with m g c show ?thesis by (simp add: lru_miss_def maxsize_def)
qed

subsection \<open>Failures in the cache\<close>

text \<open>
  Claim C7, as amended. The cache has no expiry and does not know where a result came
  from: the \<open>False\<close> of a failed lookup is stored exactly as any other result is, and
  the next call with the same institution and country returns it without a request,
  whatever the registry would answer then.
\<close>

theorem failure_cached_like_any_result:
  assumes "map_of cache (institution, country) = None"
    and "fst (dispatch env institution country) = Inl e"
  shows "check_accreditation env institution country cache =
           (False, snd (check_accreditation_body env institution country),
            lru_miss (institution, country) False cache) \<and>
         check_accreditation env2 institution country
           (lru_miss (institution, country) False cache) =
           (False, [], lru_miss (institution, country) False cache)"
proof -
  have a: "check_accreditation env institution country cache =
           (False, snd (check_accreditation_body env institution country),
            lru_miss (institution, country) False cache)"
    using assms by (simp add: check_accreditation_miss body_failure)
  have "check_accreditation env2 institution country
           (lru_miss (institution, country) False cache) =
           (False, [], lru_hit (institution, country) False
              (lru_miss (institution, country) False cache))"
    by (rule check_accreditation_hit) (simp add: map_of_lru)
  with assms(1) have b: "check_accreditation env2 institution country
           (lru_miss (institution, country) False cache) =
           (False, [], lru_miss (institution, country) False cache)"
    by (simp add: lru_hit_after_miss)
  show ?thesis using a b by simp
qed

theorem failure_cached_like_any_result_witness:
  "map_of ([] :: cache) (tu_muenchen, ''Germany'') = None \<and>
   fst (dispatch (stub_env down no_tags []) tu_muenchen ''Germany'') =
     Inl (ConnectionError ''Connection refused'') \<and>
   check_accreditation (stub_env (serve ''<p>1 Treffer</p>'') no_tags []) tu_muenchen ''Germany''
     (lru_miss (tu_muenchen, ''Germany'') False []) =
     (False, [], [((tu_muenchen, ''Germany''), False)])"
proof -
  have m: "map_of ([] :: cache) (tu_muenchen, ''Germany'') = None" by simp
  have d: "fst (dispatch (stub_env down no_tags []) tu_muenchen ''Germany'') =
     Inl (ConnectionError ''Connection refused'')"
    by (simp add: dispatch_def check_anabin_germany_def stub_env_def down_def)
  show ?thesis
    using m d failure_cached_like_any_result [OF m d, of "stub_env (serve ''<p>1 Treffer</p>'') no_tags []"]
    by (simp add: lru_miss_def maxsize_def)
qed

text \<open>
  Claim C7, as stated, fails: after a lookup that failed because the registry was down,
  the call made when the registry is up again returns the cached \<open>False\<close> without
  asking, where a call with an empty cache returns \<open>True\<close>.
\<close>

theorem outage_retained_in_cache:
  "check_accreditation (stub_env down no_tags []) ''TU Berlin'' ''Germany'' [] =
     (False,
      [Sleep 1, Request (Get (anabin_germany_url ''TU Berlin'')),
       StError ''Accreditation check failed: Connection refused''],
      [((''TU Berlin'', ''Germany''), False)]) \<and>
   check_accreditation (stub_env (serve ''<p>1 Treffer</p>'') no_tags []) ''TU Berlin'' ''Germany''
     [((''TU Berlin'', ''Germany''), False)] =
     (False, [], [((''TU Berlin'', ''Germany''), False)]) \<and>
   fst (check_accreditation (stub_env (serve ''<p>1 Treffer</p>'') no_tags []) ''TU Berlin''
     ''Germany'' []) = True"
  by (simp add: check_accreditation_def check_accreditation_body_def dispatch_def
      check_anabin_germany_def stub_env_def serve_def down_def page_def uniform_def
      random_unit_def lru_miss_def lru_hit_def maxsize_def)

subsection \<open>The cache over a sequence of calls\<close>

lemma maxsize_pos: "0 < maxsize"
  by (simp add: maxsize_def)

lemma take_removeAll_take:
  "distinct xs \<Longrightarrow> take m (removeAll k (take (Suc m) xs)) = take m (removeAll k xs)"
proof (induction xs arbitrary: m)
  case Nil
  show ?case by simp
next
  case (Cons x xs)
  show ?case
  proof (cases "x = k")
    case True
    with Cons.prems have "k \<notin> set xs" by simp
    moreover from this have "k \<notin> set (take m xs)" by (meson in_set_takeD)
    ultimately have "removeAll k xs = xs" "removeAll k (take m xs) = take m xs"
      by simp_all
    with True show ?thesis by simp
  next
    case False
    from Cons.prems have d: "distinct xs" by simp
    show ?thesis
    proof (cases m)
      case 0
      then show ?thesis by simp
    next
      case (Suc m')
      with False Cons.IH [OF d, of m'] show ?thesis by simp
    qed
  qed
qed

lemma touch_take:
  assumes "distinct xs" and "0 < n"
  shows "take n (k # removeAll k (take n xs)) = take n (k # removeAll k xs)"
proof -
  from assms(2) obtain m where n: "n = Suc m" by (cases n) auto
  show ?thesis using take_removeAll_take [OF assms(1), of m k] by (simp add: n)
qed

lemma remdups_snoc: "remdups (keys @ [k]) = filter ((\<noteq>) k) (remdups keys) @ [k]"
  by (induction keys) auto

lemma most_recent_first_snoc:
  "most_recent_first (keys @ [k]) = k # removeAll k (most_recent_first keys)"
  by (simp add: most_recent_first_def remdups_snoc removeAll_filter_not_eq rev_filter)

lemma foldl_touch:
  "0 < n \<Longrightarrow>
   foldl (\<lambda>ks k. take n (k # removeAll k ks)) [] keys = take n (most_recent_first keys)"
proof (induction keys rule: rev_induct)
  case Nil
  show ?case by (simp add: most_recent_first_def)
next
  case (snoc k keys)
  have d: "distinct (most_recent_first keys)" by (simp add: most_recent_first_def)
  show ?case
    using snoc touch_take [OF d, of n k] by (simp add: most_recent_first_snoc)
qed

lemma keys_hit:
  assumes "map_of cache key = Some v" and "distinct (map fst cache)" and "length cache \<le> maxsize"
  shows "map fst (lru_hit key v cache) = take maxsize (key # removeAll key (map fst cache))"
proof -
  have k: "key \<in> set (map fst cache)"
    using assms(1) by (metis map_of_eq_None_iff option.distinct(1) set_map)
  have f: "map fst (filter (\<lambda>entry. fst entry \<noteq> key) cache) = removeAll key (map fst cache)"
    by (induction cache) auto
  have "length (removeAll key (map fst cache)) < length (map fst cache)"
    using k by (rule length_removeAll_less)
  with assms(3) have "length (key # removeAll key (map fst cache)) \<le> maxsize" by simp
  then show ?thesis by (simp add: lru_hit_def f)
qed

lemma keys_miss:
  assumes "map_of cache key = None" and "length cache \<le> maxsize"
  shows "map fst (lru_miss key v cache) = take maxsize (key # removeAll key (map fst cache))"
proof -
  have k: "key \<notin> set (map fst cache)"
    using assms(1) by (simp add: map_of_eq_None_iff)
  then have r: "removeAll key (map fst cache) = map fst cache" by simp
  obtain m where m: "maxsize = Suc m" using maxsize_pos by (cases maxsize) auto
  show ?thesis
  proof (cases "maxsize \<le> length cache")
    case True
    with assms(2) have "length cache = Suc m" by (simp add: m)
    then show ?thesis
      using True by (simp add: lru_miss_def r m map_butlast butlast_conv_take take_map)
  next
    case False
    then show ?thesis by (simp add: lru_miss_def r m)
  qed
qed

lemma keys_step:
  assumes "distinct (map fst cache)" and "length cache \<le> maxsize"
  shows "map fst (snd (snd (check_accreditation env i c cache))) =
           take maxsize ((i, c) # removeAll (i, c) (map fst cache))"
proof (cases "map_of cache (i, c)")
  case None
  then show ?thesis using assms(2) by (simp add: check_accreditation_miss keys_miss)
next
  case (Some v)
  then show ?thesis using assms by (simp add: check_accreditation_hit keys_hit)
qed

lemma touch_distinct: "distinct ks \<Longrightarrow> distinct (take maxsize (k # removeAll k ks))"
  by (rule distinct_take) (simp add: distinct_removeAll)

lemma touch_length: "length (take maxsize (k # removeAll k ks)) \<le> maxsize"
  by simp

lemma run_cache:
  "snd (snd (run ((env, i, c) # calls) cache)) =
     snd (snd (run calls (snd (snd (check_accreditation env i c cache)))))"
  by (simp split: prod.splits)

lemma run_keys:
  assumes "distinct (map fst cache)" and "length cache \<le> maxsize"
  shows "map fst (snd (snd (run calls cache))) =
           foldl (\<lambda>ks k. take maxsize (k # removeAll k ks)) (map fst cache) (map snd calls)"
  using assms
proof (induction calls arbitrary: cache)
  case Nil
  show ?case by simp
next
  case (Cons call calls)
  obtain env i c where call: "call = (env, i, c)" by (cases call) auto
  let ?c1 = "snd (snd (check_accreditation env i c cache))"
  have s: "map fst ?c1 = take maxsize ((i, c) # removeAll (i, c) (map fst cache))"
    using Cons.prems by (rule keys_step)
  have d: "distinct (map fst ?c1)"
    unfolding s using Cons.prems(1) by (rule touch_distinct)
  have l: "length ?c1 \<le> maxsize"
    using touch_length [of "(i, c)" "map fst cache"] s by (metis length_map)
  show ?case
    using Cons.IH [OF d l] s unfolding call run_cache by simp
qed

text \<open>
  Claim C5. Starting from the empty cache, after any sequence of calls the cache holds at
  most 1000 entries, and its keys are the 1000 most recently used distinct
  (institution, country) pairs, the most recent first: what has been evicted is always
  what was used longest ago. In particular after calls with 1001 distinct keys exactly
  the first of them is gone.
\<close>

theorem cache_bounded_lru:
  "length (snd (snd (run calls []))) \<le> 1000 \<and>
   map fst (snd (snd (run calls []))) = take 1000 (most_recent_first (map snd calls)) \<and>
   (distinct (map snd calls) \<and> length calls = 1001 \<longrightarrow>
      map fst (snd (snd (run calls []))) = rev (tl (map snd calls)))"
proof -
  have k: "map fst (snd (snd (run calls []))) = take maxsize (most_recent_first (map snd calls))"
    using run_keys [of "[]" calls] foldl_touch [OF maxsize_pos] by simp
  then have "length (map fst (snd (snd (run calls [])))) \<le> maxsize" by simp
  then have a: "length (snd (snd (run calls []))) \<le> maxsize" by simp
  have c: "map fst (snd (snd (run calls []))) = rev (tl (map snd calls))"
    if "distinct (map snd calls)" and "length calls = 1001"
  proof -
    have "take 1000 (rev (map snd calls)) = rev (drop 1 (map snd calls))"
      using that(2) by (simp add: take_rev)
    then show ?thesis
      using that(1) k by (simp add: most_recent_first_def maxsize_def drop_Suc distinct_remdups_id)
  qed
  show ?thesis using a k c by (simp add: maxsize_def)
qed

theorem cache_bounded_lru_witness:
  "distinct (map snd (sample_calls 1001)) \<and> length (sample_calls 1001) = 1001 \<and>
   map fst (snd (snd (run (sample_calls 1001) []))) =
     map (\<lambda>k. (replicate k CHR ''a'', ''Nigeria'')) (rev [1..<1001])"
proof -
  have m: "map snd (sample_calls 1001) = map (\<lambda>k. (replicate k CHR ''a'', ''Nigeria'')) [0..<1001]"
    by (simp add: sample_calls_def)
  have d: "distinct (map snd (sample_calls 1001))"
    unfolding m by (simp add: distinct_map inj_on_def)
  have l: "length (sample_calls 1001) = 1001"
    by (simp add: sample_calls_def)
  have "tl (map snd (sample_calls 1001)) = map (\<lambda>k. (replicate k CHR ''a'', ''Nigeria'')) [1..<1001]"
    unfolding m by (simp add: map_tl [symmetric] del: upt_Suc)
  then have t: "rev (tl (map snd (sample_calls 1001))) =
      map (\<lambda>k. (replicate k CHR ''a'', ''Nigeria'')) (rev [1..<1001])"
    by (simp add: rev_map)
  from cache_bounded_lru [of "sample_calls 1001"] d l
  have "map fst (snd (snd (run (sample_calls 1001) []))) = rev (tl (map snd (sample_calls 1001)))"
    by blast
  with d l t show ?thesis by simp
qed

subsection \<open>The delay before a lookup\<close>

lemma run_events:
  "fst (snd (run ((env, i, c) # calls) cache)) =
     fst (snd (check_accreditation env i c cache)) @
     fst (snd (run calls (snd (snd (check_accreditation env i c cache)))))"
  by (simp split: prod.splits)

lemma body_sleeps:
  "sleeps_of (snd (check_accreditation_body env i c)) = [uniform 1 3 (rand53 env)]"
  using body_events [of env i c] by auto

lemma call_sleeps:
  "sleeps_of (fst (snd (check_accreditation env i c cache))) =
     (if map_of cache (i, c) = None then [uniform 1 3 (rand53 env)] else [])"
  by (cases "map_of cache (i, c)")
     (simp_all add: check_accreditation_miss check_accreditation_hit body_sleeps)

lemma uniform_1_3_le: "1 \<le> uniform 1 3 w \<and> uniform 1 3 w \<le> 3"
  using uniform_1_3_bounds [of w] by simp

lemma run_sleeps_bounded:
  "list_all (\<lambda>d. 1 \<le> d \<and> d \<le> 3) (sleeps_of (fst (snd (run calls cache))))"
proof (induction calls arbitrary: cache)
  case Nil
  show ?case by simp
next
  case (Cons call calls)
  obtain env i c where call: "call = (env, i, c)" by (cases call) auto
  show ?case
    unfolding call run_events sleeps_of_append
    using Cons.IH uniform_1_3_le by (simp add: call_sleeps)
qed

lemma map_of_lru_miss_other:
  "k \<noteq> key \<Longrightarrow> map_of cache k = None \<Longrightarrow> map_of (lru_miss key v cache) k = None"
  by (simp add: lru_miss_def map_of_butlast_None)

lemma run_distinct_sleeps:
  assumes "distinct (map snd calls)" and "list_all (\<lambda>k. map_of cache k = None) (map snd calls)"
  shows "length (sleeps_of (fst (snd (run calls cache)))) = length calls"
  using assms
proof (induction calls arbitrary: cache)
  case Nil
  show ?case by simp
next
  case (Cons call calls)
  obtain env i c where call: "call = (env, i, c)" by (cases call) auto
  from Cons.prems have miss: "map_of cache (i, c) = None"
    and d: "distinct (map snd calls)"
    and new: "(i, c) \<notin> set (map snd calls)"
    and rest: "list_all (\<lambda>k. map_of cache k = None) (map snd calls)"
    by (simp_all add: call)
  let ?v = "fst (check_accreditation_body env i c)"
  have c1: "snd (snd (check_accreditation env i c cache)) = lru_miss (i, c) ?v cache"
    using miss by (simp add: check_accreditation_miss)
  have "list_all (\<lambda>k. map_of (lru_miss (i, c) ?v cache) k = None) (map snd calls)"
    using rest new unfolding list_all_iff
    by (metis map_of_lru_miss_other)
  from Cons.IH [OF d this] show ?case
    unfolding call run_events sleeps_of_append c1 [symmetric]
    by (simp add: call_sleeps miss)
qed

text \<open>
  Claim C8. A call that misses the cache first sleeps, for \<open>1 + 2 u\<close> time units where
  \<open>u\<close> in \<open>[0, 1)\<close> is the draw of the random generator, so for a time in \<open>[1, 3]\<close>,
  and only then sends its requests; it sleeps once. A call that hits the cache does not
  sleep and does nothing else. Over any sequence of calls every sleep is in \<open>[1, 3]\<close>,
  and calls with different keys, starting from the empty cache, sleep once each.
\<close>

theorem rate_limit_before_each_lookup:
  "(map_of cache (institution, country) = None \<longrightarrow>
      (\<exists>rest. fst (snd (check_accreditation env institution country cache)) =
                Sleep (uniform 1 3 (rand53 env)) # rest \<and>
              sleeps_of rest = [] \<and>
              requests_of rest = requests_of (snd (dispatch env institution country)))) \<and>
   (map_of cache (institution, country) = Some v \<longrightarrow>
      fst (snd (check_accreditation env institution country cache)) = []) \<and>
   uniform 1 3 (rand53 env) = 1 + 2 * (real (unat (rand53 env)) / 2 ^ 53) \<and>
   1 \<le> uniform 1 3 (rand53 env) \<and> uniform 1 3 (rand53 env) \<le> 3 \<and>
   list_all (\<lambda>d. 1 \<le> d \<and> d \<le> 3) (sleeps_of (fst (snd (run calls cache)))) \<and>
   (distinct (map snd calls) \<longrightarrow>
      length (sleeps_of (fst (snd (run calls [])))) = length calls)"
proof -
  have a: "map_of cache (institution, country) = None \<longrightarrow>
      (\<exists>rest. fst (snd (check_accreditation env institution country cache)) =
                Sleep (uniform 1 3 (rand53 env)) # rest \<and>
              sleeps_of rest = [] \<and>
              requests_of rest = requests_of (snd (dispatch env institution country)))"
    using body_events [of env institution country] by (simp add: check_accreditation_miss)
  have b: "map_of cache (institution, country) = Some v \<longrightarrow>
      fst (snd (check_accreditation env institution country cache)) = []"
    by (simp add: check_accreditation_hit)
  have c: "uniform 1 3 (rand53 env) = 1 + 2 * (real (unat (rand53 env)) / 2 ^ 53)"
    by (simp add: uniform_def random_unit_def)
  have d: "distinct (map snd calls) \<longrightarrow>
      length (sleeps_of (fst (snd (run calls [])))) = length calls"
    using run_distinct_sleeps [of calls "[]"] by (simp add: list_all_iff)
  show ?thesis
    using a b c d uniform_1_3_le [of "rand53 env"] run_sleeps_bounded [of calls cache]
    by blast
qed

theorem rate_limit_before_each_lookup_witness:
  "map_of ([] :: cache) (''TU Berlin'', ''Germany'') = None \<and>
   fst (snd (check_accreditation (stub_env (serve ''<p>1 Treffer</p>'') no_tags [])
     ''TU Berlin'' ''Germany'' [])) =
     [Sleep 1, Request (Get (anabin_germany_url ''TU Berlin''))] \<and>
   map_of [((''TU Berlin'', ''Germany''), True)] (''TU Berlin'', ''Germany'') = Some True \<and>
   fst (snd (check_accreditation (stub_env (serve ''<p>1 Treffer</p>'') no_tags [])
     ''TU Berlin'' ''Germany'' [((''TU Berlin'', ''Germany''), True)])) = [] \<and>
   distinct (map snd (sample_calls 3)) \<and>
   length (sleeps_of (fst (snd (run (sample_calls 3) [])))) = 3"
proof -
  let ?env = "stub_env (serve ''<p>1 Treffer</p>'') no_tags []"
  have m: "map_of ([] :: cache) (''TU Berlin'', ''Germany'') = None" by simp
  have h: "map_of [((''TU Berlin'', ''Germany''), True)] (''TU Berlin'', ''Germany'') = Some True"
    by simp
  have d: "distinct (map snd (sample_calls 3))"
    by (simp add: sample_calls_def distinct_map inj_on_def)
  have e: "fst (snd (check_accreditation ?env ''TU Berlin'' ''Germany'' [])) =
     [Sleep 1, Request (Get (anabin_germany_url ''TU Berlin''))]"
    by (simp add: check_accreditation_def check_accreditation_body_def dispatch_def
        check_anabin_germany_def stub_env_def serve_def page_def uniform_def random_unit_def)
  have l: "length (sample_calls 3) = 3" by (simp add: sample_calls_def)
  show ?thesis
    using m h d e l
      rate_limit_before_each_lookup [of "[]" "''TU Berlin''" "''Germany''" ?env True "sample_calls 3"]
      rate_limit_before_each_lookup [of "[((''TU Berlin'', ''Germany''), True)]" "''TU Berlin''"
        "''Germany''" ?env True "[]"]
    by simp
qed

subsection \<open>Pakistan: the institution name as a pattern\<close>

lemma any_search_invalid:
  "re_compile other pat = Inl e \<Longrightarrow> ds \<noteq> [] \<Longrightarrow> any_search other pat ds = Inl e"
  by (cases ds) (simp_all add: re_search_def)

lemma any_search_invalid_not_True:
  "re_compile other pat = Inl e \<Longrightarrow> any_search other pat ds \<noteq> Inr True"
  by (cases ds) (simp_all add: re_search_def)

lemma pakistan_invalid_False:
  assumes "re_compile (re_other env) institution = Inl e"
  shows "fst (check_accreditation_body env institution ''Pakistan'') = False"
proof -
  have d: "dispatch env institution ''Pakistan'' = check_hec_pakistan env institution"
    by (simp add: dispatch_def)
  have "fst (check_hec_pakistan env institution) \<noteq> Inr True"
    using any_search_invalid_not_True [OF assms]
    by (simp add: check_hec_pakistan_def split: sum.splits)
  then show ?thesis
    by (cases "fst (check_hec_pakistan env institution)") (simp_all add: body_of_dispatch d)
qed

text \<open>
  Claim C10, as amended. The Pakistan adapter passes the institution name to
  \<^verbatim>\<open>re.search\<close> as the pattern. For some names with metacharacters the outcome
  differs from case-insensitive literal containment: "Univ. of Lahore" matches the
  element "Univx of Lahore", which does not contain it, and "Tech (Lahore)" does not
  match the element "Tech (Lahore)", which contains it. A name that is an invalid
  pattern raises \<^verbatim>\<open>re.error\<close> when the page has at least one
  \<^verbatim>\<open>div.university-name\<close> element, and the handler reports it and returns
  \<open>False\<close>; the verdict for such a name is \<open>False\<close> in every case.
\<close>

theorem pakistan_name_is_a_pattern:
  "(http env (Get hec_pakistan_url) = Inr response \<longrightarrow>
      fst (check_hec_pakistan env institution) =
        any_search (re_other env) institution
          (soup_select env (resp_text response) ''div.university-name'')) \<and>
   fst (check_hec_pakistan (stub_env (serve ''<html>'') no_tags [''Univx of Lahore''])
          ''Univ. of Lahore'') = Inr True \<and>
   list_ex (\<lambda>d. str_in (lower ''Univ. of Lahore'') (lower d)) [''Univx of Lahore''] = False \<and>
   fst (check_hec_pakistan (stub_env (serve ''<html>'') no_tags [''Tech (Lahore)''])
          ''Tech (Lahore)'') = Inr False \<and>
   list_ex (\<lambda>d. str_in (lower ''Tech (Lahore)'') (lower d)) [''Tech (Lahore)''] = True \<and>
   (re_compile (re_other env) institution = Inl e \<and>
    http env (Get hec_pakistan_url) = Inr response \<and>
    soup_select env (resp_text response) ''div.university-name'' \<noteq> [] \<longrightarrow>
      check_hec_pakistan env institution = (Inl e, [Request (Get hec_pakistan_url)]) \<and>
      check_accreditation_body env institution ''Pakistan'' =
        (False,
         [Sleep (uniform 1 3 (rand53 env)), Request (Get hec_pakistan_url),
          StError (''Accreditation check failed: '' @ str_exn e)])) \<and>
   (re_compile (re_other env) institution = Inl e \<longrightarrow>
      fst (check_accreditation_body env institution ''Pakistan'') = False)"
proof -
  have a: "http env (Get hec_pakistan_url) = Inr response \<longrightarrow>
      fst (check_hec_pakistan env institution) =
        any_search (re_other env) institution
          (soup_select env (resp_text response) ''div.university-name'')"
    by (simp add: check_hec_pakistan_def)
  have b1: "fst (check_hec_pakistan (stub_env (serve ''<html>'') no_tags [''Univx of Lahore''])
          ''Univ. of Lahore'') = Inr True"
    by (simp add: check_hec_pakistan_def stub_env_def serve_def re_search_def re_compile_def
        in_fragment_def lower_chr_def)
  have b2: "list_ex (\<lambda>d. str_in (lower ''Univ. of Lahore'') (lower d)) [''Univx of Lahore''] = False"
    by (simp add: lower_def lower_chr_def)
  have b3: "fst (check_hec_pakistan (stub_env (serve ''<html>'') no_tags [''Tech (Lahore)''])
          ''Tech (Lahore)'') = Inr False"
    by (simp add: check_hec_pakistan_def stub_env_def serve_def re_search_def re_compile_def
        in_fragment_def lower_chr_def)
  have b4: "list_ex (\<lambda>d. str_in (lower ''Tech (Lahore)'') (lower d)) [''Tech (Lahore)''] = True"
    by (simp add: lower_def lower_chr_def)
  have c: "check_hec_pakistan env institution = (Inl e, [Request (Get hec_pakistan_url)]) \<and>
      check_accreditation_body env institution ''Pakistan'' =
        (False,
         [Sleep (uniform 1 3 (rand53 env)), Request (Get hec_pakistan_url),
          StError (''Accreditation check failed: '' @ str_exn e)])"
    if "re_compile (re_other env) institution = Inl e"
      and "http env (Get hec_pakistan_url) = Inr response"
      and "soup_select env (resp_text response) ''div.university-name'' \<noteq> []"
  proof -
    have "check_hec_pakistan env institution = (Inl e, [Request (Get hec_pakistan_url)])"
      using that by (simp add: check_hec_pakistan_def any_search_invalid)
    moreover have "dispatch env institution ''Pakistan'' = check_hec_pakistan env institution"
      by (simp add: dispatch_def)
    ultimately show ?thesis by (simp add: body_of_dispatch)
  qed
  show ?thesis
    using a b1 b2 b3 b4 c pakistan_invalid_False [of env institution e] by blast
qed

theorem pakistan_name_is_a_pattern_witness:
  "re_compile (re_other (stub_env (serve ''<html>'') no_tags [''LUMS'']))
     ''LUMS (Lahore'' = Inl (ReError ''missing ), unterminated subpattern'' 5) \<and>
   http (stub_env (serve ''<html>'') no_tags [''LUMS'']) (Get hec_pakistan_url) =
     Inr (page ''<html>'') \<and>
   soup_select (stub_env (serve ''<html>'') no_tags [''LUMS''])
     (resp_text (page ''<html>'')) ''div.university-name'' \<noteq> [] \<and>
   check_accreditation_body (stub_env (serve ''<html>'') no_tags [''LUMS''])
     ''LUMS (Lahore'' ''Pakistan'' =
     (False,
      [Sleep 1, Request (Get hec_pakistan_url),
       StError ''Accreditation check failed: missing ), unterminated subpattern at position 5''])"
proof -
  let ?env = "stub_env (serve ''<html>'') no_tags [''LUMS'']"
  have r: "re_compile (re_other ?env) ''LUMS (Lahore'' =
      Inl (ReError ''missing ), unterminated subpattern'' 5)"
    by (simp add: re_compile_def in_fragment_def)
  have h: "http ?env (Get hec_pakistan_url) = Inr (page ''<html>'')"
    by (simp add: stub_env_def serve_def)
  have s: "soup_select ?env (resp_text (page ''<html>'')) ''div.university-name'' \<noteq> []"
    by (simp add: stub_env_def)
  have u: "uniform 1 3 (rand53 ?env) = 1"
    by (simp add: stub_env_def uniform_def random_unit_def)
  have n: "string_of_nat 5 = ''5''"
    by code_simp
  show ?thesis
    using r h s u n
      pakistan_name_is_a_pattern [of ?env "page ''<html>''" "''LUMS (Lahore''"
        "ReError ''missing ), unterminated subpattern'' 5"]
    by simp
qed

text \<open>
  Claim C10, as stated, fails in one case: when the page has no
  \<^verbatim>\<open>div.university-name\<close> element, \<^verbatim>\<open>re.search\<close> is never called, and a name that
  is an invalid pattern raises nothing; the adapter returns \<open>False\<close> and nothing is
  reported.
\<close>

theorem invalid_pattern_not_raised_without_elements:
  "re_compile (re_other (stub_env (serve ''<html>'') no_tags []))
     ''LUMS (Lahore'' = Inl (ReError ''missing ), unterminated subpattern'' 5) \<and>
   check_hec_pakistan (stub_env (serve ''<html>'') no_tags []) ''LUMS (Lahore'' =
     (Inr False, [Request (Get hec_pakistan_url)]) \<and>
   check_accreditation_body (stub_env (serve ''<html>'') no_tags []) ''LUMS (Lahore''
     ''Pakistan'' = (False, [Sleep 1, Request (Get hec_pakistan_url)])"
  by (simp add: re_compile_def in_fragment_def check_accreditation_body_def dispatch_def
      check_hec_pakistan_def stub_env_def serve_def uniform_def random_unit_def)

end
